theory Spec2Isabelle
  imports Main
begin

section \<open>The dad-joke agent (3-litellm-agent/litellm_agent/agent.py)\<close>

subsection \<open>Values, errors and the module namespace\<close>

text \<open>
  The only exception the modelled code can raise is Python's \<open>IndexError\<close>:
  \<open>random.choice\<close> raises it on an empty sequence, and so does list indexing out of range.
\<close>

datatype py_error = IndexError

text \<open>
  \<open>LiteLlm\<close> and \<open>Agent\<close> are classes of the google.adk package, which is not part of the
  repository. Their constructors are modelled as records of the keyword arguments the
  module passes; Python's \<open>None\<close> for the API key is \<open>None\<close> of the option type.
\<close>

record LiteLlm =
  llm_model :: string
  llm_api_key :: "string option"

record Agent =
  agent_name :: string
  agent_model :: LiteLlm
  agent_description :: string
  agent_instruction :: string
  agent_tools :: "string list"

datatype pyval =
    PyModule string
  | PyClass string
  | PyFunction string
  | PyLiteLlm LiteLlm
  | PyAgent Agent

text \<open>
  A module namespace holds the names bound by the top-level statements, in the order in
  which they are bound. The process environment is a partial map from variable names to
  values.
\<close>

type_synonym namespace = "(string \<times> pyval) list"

type_synonym environ = "string \<rightharpoonup> string"

text \<open>\<open>os.getenv(key)\<close>: the value of the variable, \<open>None\<close> when it is unset; it never raises.\<close>

definition os_getenv :: "environ \<Rightarrow> string \<Rightarrow> string option" where
  "os_getenv env key = env key"

subsection \<open>Module initialisation\<close>

text \<open>
  The top-level statements of the module, in order: two imports of modules, two imports of
  classes, the assignment of \<open>model\<close>, the definition of \<open>get_dad_joke\<close> and the assignment
  of \<open>root_agent\<close>. None of them has a branch or a \<open>raise\<close>, so the result is always
  \<open>Inr\<close> of the namespace.
\<close>

definition litellm_agent_module :: "environ \<Rightarrow> py_error + namespace" where
  "litellm_agent_module env =
     (let model = \<lparr>llm_model = ''gpt-4o-mini'',
                   llm_api_key = os_getenv env ''OPENAI_KEY''\<rparr>;
          root_agent = \<lparr>agent_name = ''litellm_agent'',
                        agent_model = model,
                        agent_description = ''Dad Joke Agent'',
                        agent_instruction =
                          ''\<newline>  You are a helpful assistant that can tell dad jokes.\<newline>  Only use the tool 'get_dad_joke' to tell dad jokes.\<newline>  '',
                        agent_tools = [''get_dad_joke'']\<rparr>
      in Inr [(''os'', PyModule ''os''),
              (''random'', PyModule ''random''),
              (''Agent'', PyClass ''google.adk.agents.Agent''),
              (''LiteLlm'', PyClass ''google.adk.models.lite_llm.LiteLlm''),
              (''model'', PyLiteLlm model),
              (''get_dad_joke'', PyFunction ''get_dad_joke''),
              (''root_agent'', PyAgent root_agent)])"

subsection \<open>The tool function\<close>

text \<open>
  \<open>random.choice(seq)\<close> raises \<open>IndexError\<close> on an empty sequence and otherwise returns
  \<open>seq[i]\<close>, where \<open>i\<close> is the index drawn by the generator below \<open>len(seq)\<close>. The random
  source is modelled as that index, given as an argument. An index that is not below the
  length cannot be drawn; the model gives it the result Python's indexing has there.
\<close>

definition random_choice :: "nat \<Rightarrow> 'a list \<Rightarrow> py_error + 'a" where
  "random_choice i seq =
     (if length seq = 0 then Inl IndexError
      else if i < length seq then Inr (seq ! i)
      else Inl IndexError)"

text \<open>The list literal bound to the local variable \<open>jokes\<close> in the body of \<open>get_dad_joke\<close>.\<close>

definition jokes :: "string list" where
  "jokes =
     [''Why did the chicken cross the road? To get to the other side!'',
      ''Why don't scientists trust atoms? Because they make up everything!'',
      ''Why did the scarecrow win an award? Because he was outstanding in his field!'',
      ''Why don't skeletons fight each other? They don't have the guts!'',
      ''Why did the bicycle fall over? Because it was two-tired!'']"

text \<open>
  A call of \<open>get_dad_joke\<close>. It takes the index drawn by the random source and the
  namespace of its module, and returns its result together with the namespace after the
  call. The body binds the literal to a local variable and returns the choice; it assigns
  to no global name.
\<close>

definition get_dad_joke :: "nat \<Rightarrow> namespace \<Rightarrow> (py_error + string) \<times> namespace" where
  "get_dad_joke i g = (let js = jokes in (random_choice i js, g))"

text \<open>
  A run of successive calls of the tool, one for each drawn index, each call starting from the
  namespace the previous one left.
\<close>

fun calls :: "nat list \<Rightarrow> namespace \<Rightarrow> (py_error + string) list \<times> namespace" where
  "calls [] g = ([], g)"
| "calls (i # is) g =
     (case get_dad_joke i g of
        (r, g') \<Rightarrow> (case calls is g' of (rs, g'') \<Rightarrow> (r # rs, g'')))"

section \<open>The email agent (4-structured-outputs/email_agent/agent.py)\<close>

text \<open>Candidate values, as parsed from JSON. Numbers are integers here.\<close>

datatype json =
    JNull
  | JBool bool
  | JNum int
  | JStr string
  | JArr "json list"
  | JObj "(string \<times> json) list"

text \<open>
  The class \<open>EmailContent\<close>: two fields annotated \<open>str\<close>, both declared with
  \<open>Field(...)\<close>, that is, required.
\<close>

record EmailContent =
  subject :: string
  body :: string

text \<open>
  A violation names the field it is about: a required field that is absent, a field whose
  value is not a string, or a candidate that is not an object at all.
\<close>

datatype violation = Missing string | StringType string | ModelType

datatype schema_error = SchemaViolation "violation list"

text \<open>
  Modelled from the spec: the validation of one declared string field. Validation is done
  by pydantic's \<open>BaseModel\<close>, a library outside the repository; the spec asks for a step
  that fails naming the missing or mismatched field.
\<close>

definition str_field :: "(string \<times> json) list \<Rightarrow> string \<Rightarrow> violation + string" where
  "str_field obj name =
     (case map_of obj name of
        None \<Rightarrow> Inl (Missing name)
      | Some (JStr s) \<Rightarrow> Inr s
      | Some _ \<Rightarrow> Inl (StringType name))"

text \<open>
  Modelled from the spec: validation of a candidate against \<open>EmailContent\<close> (pydantic's
  \<open>BaseModel\<close> validation, outside the repository). Both declared fields are validated, in
  the order of their declaration, and every violation is reported. Keys that the class
  does not declare are not looked at: the class sets no configuration for them. A
  candidate object has one value for each key.
\<close>

definition EmailContent_validate :: "json \<Rightarrow> schema_error + EmailContent" where
  "EmailContent_validate v =
     (case v of
        JObj obj \<Rightarrow>
          (case (str_field obj ''subject'', str_field obj ''body'') of
             (Inr s, Inr b) \<Rightarrow> Inr \<lparr>subject = s, body = b\<rparr>
           | (Inl e, Inr b) \<Rightarrow> Inl (SchemaViolation [e])
           | (Inr s, Inl e) \<Rightarrow> Inl (SchemaViolation [e])
           | (Inl e1, Inl e2) \<Rightarrow> Inl (SchemaViolation [e1, e2]))
      | _ \<Rightarrow> Inl (SchemaViolation [ModelType]))"

section \<open>Properties of the dad-joke tool\<close>

lemma length_jokes: "length jokes = 5"
  by (simp add: jokes_def)

lemma distinct_jokes: "distinct jokes"
  by (simp add: jokes_def)

lemma get_dad_joke_result: "fst (get_dad_joke i g) = random_choice i jokes"
  by (simp add: get_dad_joke_def)

lemma get_dad_joke_namespace: "snd (get_dad_joke i g) = g"
  by (simp add: get_dad_joke_def)

lemma random_choice_in_range:
  "i < length seq \<Longrightarrow> random_choice i seq = Inr (seq ! i)"
  by (auto simp: random_choice_def)

lemma random_choice_Inr: "random_choice i seq = Inr x \<Longrightarrow> i < length seq \<and> x = seq ! i"
  by (auto simp: random_choice_def split: if_splits)

text \<open>
  Claim C1. Every call of \<open>get_dad_joke\<close> that returns a value returns one of the five
  literal jokes of the function body, and with an index drawn below the length of the list
  the call does return such a joke. The jokes form a set of exactly five strings.
\<close>

theorem get_dad_joke_membership:
  "card (set jokes) = 5
   \<and> (\<forall>s. fst (get_dad_joke i g) = Inr s \<longrightarrow> s \<in> set jokes)
   \<and> (i < length jokes \<longrightarrow> (\<exists>s \<in> set jokes. fst (get_dad_joke i g) = Inr s))"
proof -
  have five: "card (set jokes) = 5"
    using distinct_card [OF distinct_jokes] by (simp add: length_jokes)
  have inside: "\<forall>s. fst (get_dad_joke i g) = Inr s \<longrightarrow> s \<in> set jokes"
    by (auto simp: get_dad_joke_result dest: random_choice_Inr)
  have returns: "i < length jokes \<longrightarrow> (\<exists>s \<in> set jokes. fst (get_dad_joke i g) = Inr s)"
    by (simp add: get_dad_joke_result random_choice_in_range)
  from five inside returns show ?thesis by blast
qed

theorem get_dad_joke_membership_witness:
  "(2::nat) < length jokes
   \<and> fst (get_dad_joke 2 []) =
       Inr ''Why did the scarecrow win an award? Because he was outstanding in his field!''
   \<and> ''Why did the scarecrow win an award? Because he was outstanding in his field!''
       \<in> set jokes"
  using get_dad_joke_membership [of 2 "[]"]
  by (simp add: get_dad_joke_def random_choice_def jokes_def)

text \<open>
  Claim C5. With the random source modelled as the drawn index, the five jokes are
  pairwise different and each of them is returned for exactly one of the five indices
  below the length of the list: the choice is a bijection between indices and jokes, so
  equally likely indices give equally likely jokes.
\<close>

theorem get_dad_joke_uniform:
  "length jokes = 5 \<and> distinct jokes
   \<and> (j \<in> set jokes \<longrightarrow> (\<exists>!i. i < length jokes \<and> fst (get_dad_joke i g) = Inr j))"
proof -
  have "\<exists>!i. i < length jokes \<and> fst (get_dad_joke i g) = Inr j" if mem: "j \<in> set jokes"
  proof -
    from mem obtain i where i: "i < length jokes" "jokes ! i = j"
      by (auto simp: in_set_conv_nth)
    show ?thesis
    proof (rule ex1I [of _ i])
      show "i < length jokes \<and> fst (get_dad_joke i g) = Inr j"
        using i by (simp add: get_dad_joke_result random_choice_in_range)
    next
      fix k
      assume k: "k < length jokes \<and> fst (get_dad_joke k g) = Inr j"
      then have "jokes ! k = jokes ! i"
        using i by (auto simp: get_dad_joke_result dest: random_choice_Inr)
      moreover have "k < length jokes" using k by simp
      ultimately show "k = i"
        using i(1) nth_eq_iff_index_eq [OF distinct_jokes] by blast
    qed
  qed
  then show ?thesis
    using length_jokes distinct_jokes by blast
qed

theorem get_dad_joke_uniform_witness:
  "''Why did the bicycle fall over? Because it was two-tired!'' \<in> set jokes
   \<and> (\<exists>!i. i < length jokes
          \<and> fst (get_dad_joke i []) =
              Inr ''Why did the bicycle fall over? Because it was two-tired!'')"
  using get_dad_joke_uniform [of "''Why did the bicycle fall over? Because it was two-tired!''" "[]"]
  by (simp add: jokes_def)

text \<open>
  Claim C6. The list of jokes is not empty, and with an index drawn below its length a
  call returns a string and leaves the namespace as it was; the \<open>IndexError\<close> of an empty
  selection does not occur.
\<close>

theorem get_dad_joke_no_failure:
  "jokes \<noteq> []
   \<and> (i < length jokes \<longrightarrow>
        (\<exists>s. get_dad_joke i g = (Inr s, g)) \<and> fst (get_dad_joke i g) \<noteq> Inl IndexError)"
  by (auto simp: get_dad_joke_def random_choice_def jokes_def)

theorem get_dad_joke_no_failure_witness:
  "(4::nat) < length jokes
   \<and> get_dad_joke 4 [] = (Inr ''Why did the bicycle fall over? Because it was two-tired!'', [])
   \<and> fst (get_dad_joke 4 []) \<noteq> Inl IndexError"
  using get_dad_joke_no_failure [of 4 "[]"]
  by (simp add: get_dad_joke_def random_choice_def jokes_def)

lemma calls_namespace: "snd (calls is g) = g"
proof (induction "is" arbitrary: g)
  case Nil
  show ?case by simp
next
  case (Cons i "is")
  obtain rs g' where run: "calls is g = (rs, g')"
    by (cases "calls is g")
  with Cons.IH [of g] have "g' = g" by simp
  with run show ?case by (simp add: get_dad_joke_def)
qed

lemma calls_results: "fst (calls is g) = map (\<lambda>i. random_choice i jokes) is"
proof (induction "is" arbitrary: g)
  case Nil
  show ?case by simp
next
  case (Cons i "is")
  obtain rs g' where run: "calls is g = (rs, g')"
    by (cases "calls is g")
  with Cons.IH [of g] have "rs = map (\<lambda>i. random_choice i jokes) is" by simp
  with run show ?case by (simp add: get_dad_joke_def)
qed

lemma litellm_agent_module_jokes:
  "litellm_agent_module env = Inr ns \<Longrightarrow> map_of ns ''jokes'' = None"
  by (auto simp: litellm_agent_module_def Let_def)

text \<open>
  Claim C7, as stated, fails: initialisation of the module succeeds and binds no name
  \<open>jokes\<close>. The list is a literal of the body of \<open>get_dad_joke\<close>, bound to a local variable
  on each call, not a module-level constant defined once at start-up.
\<close>

theorem jokes_module_level_counterexample:
  "\<not> isl (litellm_agent_module Map.empty)
   \<and> ''jokes'' \<notin> fst ` set (projr (litellm_agent_module Map.empty))"
  by (simp add: litellm_agent_module_def Let_def)

text \<open>
  Claim C7, amended. The joke list is not a module-level name: it is the literal that each
  call of \<open>get_dad_joke\<close> binds locally. It is the same five strings on every call: in any
  run of calls each call selects from the same list, and the run leaves the module
  namespace unchanged.
\<close>

theorem jokes_unchanged_across_calls:
  "(\<forall>ns. litellm_agent_module env = Inr ns \<longrightarrow> map_of ns ''jokes'' = None)
   \<and> snd (calls is g) = g
   \<and> fst (calls is g) = map (\<lambda>i. random_choice i jokes) is"
  using litellm_agent_module_jokes calls_namespace calls_results by blast

theorem jokes_unchanged_across_calls_witness:
  "litellm_agent_module Map.empty = Inr (projr (litellm_agent_module Map.empty))
   \<and> map_of (projr (litellm_agent_module Map.empty)) ''jokes'' = None
   \<and> snd (calls [0, 4] []) = []
   \<and> fst (calls [0, 4] []) =
       [Inr ''Why did the chicken cross the road? To get to the other side!'',
        Inr ''Why did the bicycle fall over? Because it was two-tired!'']"
proof -
  have init: "litellm_agent_module Map.empty = Inr (projr (litellm_agent_module Map.empty))"
    by (simp add: litellm_agent_module_def Let_def)
  have run: "map (\<lambda>i. random_choice i jokes) [0, 4] =
       [Inr ''Why did the chicken cross the road? To get to the other side!'',
        Inr ''Why did the bicycle fall over? Because it was two-tired!'']"
    by (simp add: random_choice_def jokes_def)
  from jokes_unchanged_across_calls [of Map.empty "[0, 4]" "[]"] init run
  show ?thesis by metis
qed

section \<open>Module initialisation without the API key\<close>

text \<open>
  Claim C9. When \<open>OPENAI_KEY\<close> is unset, initialisation of the module succeeds:
  \<open>os.getenv\<close> gives \<open>None\<close>, \<open>model\<close> is bound to a \<open>LiteLlm\<close> for \<open>gpt-4o-mini\<close> whose API
  key is \<open>None\<close>, and \<open>root_agent\<close> is bound to an agent that uses this model. No error is
  raised.
\<close>

theorem module_init_without_key:
  "env ''OPENAI_KEY'' = None \<Longrightarrow>
     \<exists>ns m a. litellm_agent_module env = Inr ns
       \<and> map_of ns ''model'' = Some (PyLiteLlm m)
       \<and> llm_model m = ''gpt-4o-mini'' \<and> llm_api_key m = None
       \<and> map_of ns ''root_agent'' = Some (PyAgent a) \<and> agent_model a = m"
  by (simp add: litellm_agent_module_def Let_def os_getenv_def)

theorem module_init_without_key_witness:
  "[''PATH'' \<mapsto> ''/usr/bin''] ''OPENAI_KEY'' = None
   \<and> (\<exists>ns m a. litellm_agent_module [''PATH'' \<mapsto> ''/usr/bin''] = Inr ns
       \<and> map_of ns ''model'' = Some (PyLiteLlm m)
       \<and> llm_model m = ''gpt-4o-mini'' \<and> llm_api_key m = None
       \<and> map_of ns ''root_agent'' = Some (PyAgent a) \<and> agent_model a = m)"
  using module_init_without_key [of "[''PATH'' \<mapsto> ''/usr/bin'']"]
  by simp

section \<open>Properties of the email schema\<close>

text \<open>
  Claim C2. The candidate \<open>{"subject": "Hi"}\<close>, with no \<open>body\<close>, fails validation with a
  schema violation that names the missing field \<open>body\<close>; no record is produced.
\<close>

theorem EmailContent_missing_body:
  "EmailContent_validate (JObj [(''subject'', JStr ''Hi'')]) =
     Inl (SchemaViolation [Missing ''body''])"
  by (simp add: EmailContent_validate_def str_field_def)

text \<open>
  Claim C3. The candidate \<open>{"subject": 123, "body": "Hello"}\<close> fails validation with a
  schema violation that names the mismatched field \<open>subject\<close>.
\<close>

theorem EmailContent_subject_wrong_type:
  "EmailContent_validate (JObj [(''subject'', JNum 123), (''body'', JStr ''Hello'')]) =
     Inl (SchemaViolation [StringType ''subject''])"
  by (simp add: EmailContent_validate_def str_field_def)

text \<open>
  Claim C4. The candidate \<open>{"subject": "Hi", "body": "Hello"}\<close> validates, and the accessors
  of the record give \<open>Hi\<close> and \<open>Hello\<close>.
\<close>

theorem EmailContent_accepts:
  "\<exists>r. EmailContent_validate (JObj [(''subject'', JStr ''Hi''), (''body'', JStr ''Hello'')]) = Inr r
     \<and> subject r = ''Hi'' \<and> body r = ''Hello''"
  by (simp add: EmailContent_validate_def str_field_def)

lemma str_field_cong:
  "map_of obj' name = map_of obj name \<Longrightarrow> str_field obj' name = str_field obj name"
  by (simp add: str_field_def)

lemma EmailContent_validate_cong:
  assumes "map_of obj' ''subject'' = map_of obj ''subject''"
    and "map_of obj' ''body'' = map_of obj ''body''"
  shows "EmailContent_validate (JObj obj') = EmailContent_validate (JObj obj)"
proof -
  have "str_field obj' ''subject'' = str_field obj ''subject''"
    using assms(1) by (rule str_field_cong)
  moreover have "str_field obj' ''body'' = str_field obj ''body''"
    using assms(2) by (rule str_field_cong)
  ultimately show ?thesis
    by (simp only: EmailContent_validate_def json.case)
qed

text \<open>
  Claim C10. Keys other than \<open>subject\<close> and \<open>body\<close> are ignored: when a candidate validates,
  every candidate that has the same values for \<open>subject\<close> and \<open>body\<close>, whatever other keys
  it holds, validates to the same record.
\<close>

theorem EmailContent_extra_fields:
  assumes "map_of obj' ''subject'' = map_of obj ''subject''"
    and "map_of obj' ''body'' = map_of obj ''body''"
    and "EmailContent_validate (JObj obj) = Inr r"
  shows "EmailContent_validate (JObj obj') = Inr r"
  using EmailContent_validate_cong [OF assms(1) assms(2)] assms(3) by simp

theorem EmailContent_extra_fields_witness:
  "EmailContent_validate
     (JObj [(''subject'', JStr ''Hi''), (''body'', JStr ''Hello''), (''attachments'', JArr [])]) =
   Inr \<lparr>subject = ''Hi'', body = ''Hello''\<rparr>"
proof -
  let ?obj = "[(''subject'', JStr ''Hi''), (''body'', JStr ''Hello'')]"
  let ?obj' = "[(''subject'', JStr ''Hi''), (''body'', JStr ''Hello''), (''attachments'', JArr [])]"
  have s: "map_of ?obj' ''subject'' = map_of ?obj ''subject''" by simp
  have b: "map_of ?obj' ''body'' = map_of ?obj ''body''" by simp
  have v: "EmailContent_validate (JObj ?obj) = Inr \<lparr>subject = ''Hi'', body = ''Hello''\<rparr>"
    by (simp add: EmailContent_validate_def str_field_def)
  show ?thesis by (rule EmailContent_extra_fields [OF s b v])
qed

end
